theory Spec2Isabelle
  imports Complex_Main
begin

section \<open>Data model (src/types.ts)\<close>

text \<open>
  JavaScript numbers that hold currency, counters and epoch milliseconds are integers in
  this program and are modelled as unbounded \<open>int\<close>. The probabilities, their running
  sum and the random value are doubles with fractional values: each is modelled by the
  rational number it denotes, and the table holds the decimal literals, which the loop
  reads as doubles. A field that may be \<open>null\<close> is an \<open>option\<close>.
  The field \<open>id\<close> of a record is written \<open>id_rec\<close> and \<open>type\<close> is written
  \<open>type_rec\<close>; the \<open>amount\<close> of a lottery rule is written \<open>amount_rule\<close>.
\<close>

datatype RecordType = SUCCESS | FAILURE | LOTTERY

record HistoryRecord =
  id_rec :: string
  type_rec :: RecordType
  amount :: int
  timestamp :: int
  description :: string

record LotteryRule =
  label :: string
  amount_rule :: int
  probability :: rat
  color :: string

text \<open>
  The persisted object \<open>AppState\<close> of src/types.ts. Its fields carry the suffix
  \<open>_s\<close>, since the component below keeps state variables of the same names.
\<close>

record AppState =
  fund_s :: int
  target_s :: int
  successCount_s :: int
  spinsAvailable_s :: int
  records_s :: "HistoryRecord list"
  sessionStartTime_s :: "int option"

section \<open>Constants (src/App.tsx, lines 5-24)\<close>

definition TARGET_AMOUNT :: int where
  "TARGET_AMOUNT = 1000"

definition SESSION_DURATION :: int where
  "SESSION_DURATION = 5 * 60"

definition PLEDGE_AMOUNT :: int where
  "PLEDGE_AMOUNT = 10"

definition PENALTY_TOTAL :: int where
  "PENALTY_TOTAL = 20"

definition RECORD_FAIL_AMOUNT :: int where
  "RECORD_FAIL_AMOUNT = - 10"

definition RECORD_SUCCESS_AMOUNT :: int where
  "RECORD_SUCCESS_AMOUNT = 10"

definition SPINS_THRESHOLD :: int where
  "SPINS_THRESHOLD = 5"

definition LOTTERY_RULES :: "LotteryRule list" where
  "LOTTERY_RULES =
    [\<lparr>label = ''Minor Encouragement'', amount_rule = 10, probability = 4 / 10,
        color = ''text-blue-500''\<rparr>,
     \<lparr>label = ''Medium Surprise'', amount_rule = 20, probability = 3 / 10,
        color = ''text-green-500''\<rparr>,
     \<lparr>label = ''Big Explosion'', amount_rule = 40, probability = 2 / 10,
        color = ''text-purple-500''\<rparr>,
     \<lparr>label = ''Super Jackpot'', amount_rule = 60, probability = 1 / 10,
        color = ''text-red-500''\<rparr>]"

section \<open>Component state (src/App.tsx, lines 59-75)\<close>

datatype Modal =
  ModalStart | ModalStop | ModalDelete | ModalLottery | ModalLotteryRules
  | ModalLotteryResult | ModalData

text \<open>
  One field per \<open>useState\<close> variable of \<open>App\<close>. The interval handle \<open>timerRef\<close>
  belongs to the scheduler and is not part of the model.
\<close>

record App =
  fund :: int
  records :: "HistoryRecord list"
  successCount :: int
  spinsAvailable :: int
  sessionStartTime :: "int option"
  isTimerRunning :: bool
  timeLeft :: int
  activeModal :: "Modal option"
  selectedRecordId :: "string option"
  lotteryResult :: "(int \<times> string) option"

text \<open>The initial values given to \<open>useState\<close>.\<close>

definition initialApp :: App where
  "initialApp =
    \<lparr>fund = 0, records = [], successCount = 0, spinsAvailable = 0,
     sessionStartTime = None, isTimerRunning = False, timeLeft = SESSION_DURATION,
     activeModal = None, selectedRecordId = None, lotteryResult = None\<rparr>"

section \<open>Record identifiers\<close>

text \<open>
  \<open>Date.now().toString()\<close>: the decimal numeral of the clock reading. Every operation
  that creates a record reads the clock twice, once for the id and once for the
  timestamp; the two readings are the arguments \<open>idNow\<close> and \<open>tsNow\<close>.
\<close>

fun digits :: "nat \<Rightarrow> string" where
  "digits n =
    (if n < 10 then [''0123456789'' ! n]
     else digits (n div 10) @ [''0123456789'' ! (n mod 10)])"

definition toString :: "int \<Rightarrow> string" where
  "toString i = (if i < 0 then CHR ''-'' # digits (nat (- i)) else digits (nat i))"

section \<open>Controller operations (src/App.tsx, lines 77-258)\<close>

text \<open>\<open>addStandardRecord\<close> (lines 80-90): prepends the record and adds its amount.\<close>

definition addStandardRecord ::
  "RecordType \<Rightarrow> int \<Rightarrow> string \<Rightarrow> int \<Rightarrow> int \<Rightarrow> App \<Rightarrow> App" where
  "addStandardRecord ty amt desc idNow tsNow s =
    (let newRecord = \<lparr>id_rec = toString idNow, type_rec = ty, amount = amt,
                       timestamp = tsNow, description = desc\<rparr>
     in s\<lparr>records := newRecord # records s, fund := fund s + amt\<rparr>)"

text \<open>
  \<open>finishTimer\<close> (lines 92-117): the session ran to its end. The one-second tick
  calls it when the remaining time reaches 0 (lines 213-218). The test
  \<open>newCount % SPINS_THRESHOLD === 0\<close> holds exactly when 5 divides \<open>newCount\<close>, as
  \<open>mod\<close> being 0 does, for negative counts as well.
\<close>

definition finishTimer :: "int \<Rightarrow> int \<Rightarrow> App \<Rightarrow> App" where
  "finishTimer idNow tsNow s =
    (let newCount = successCount s + 1
     in s\<lparr>isTimerRunning := False,
          sessionStartTime := None,
          timeLeft := SESSION_DURATION,
          records := \<lparr>id_rec = toString idNow, type_rec = SUCCESS,
                       amount = RECORD_SUCCESS_AMOUNT, timestamp = tsNow,
                       description = ''Focus Success''\<rparr> # records s,
          spinsAvailable :=
            (if newCount mod SPINS_THRESHOLD = 0 then spinsAvailable s + 1
             else spinsAvailable s),
          successCount := newCount\<rparr>)"

text \<open>
  \<open>deleteRecord\<close> (lines 164-174). \<open>!selectedRecordId\<close> holds for \<open>null\<close> and
  for the empty string; \<open>find\<close> returns the first record with the selected id and
  \<open>filter\<close> drops every record with that id.
\<close>

definition deleteRecord :: "App \<Rightarrow> App" where
  "deleteRecord s =
    (case selectedRecordId s of
       None \<Rightarrow> s
     | Some sel \<Rightarrow>
         if sel = [] then s
         else
           (let s1 =
              (case find (\<lambda>r. id_rec r = sel) (records s) of
                 Some record \<Rightarrow>
                   s\<lparr>fund := fund s - amount record,
                     records := filter (\<lambda>r. id_rec r \<noteq> sel) (records s)\<rparr>
               | None \<Rightarrow> s)
            in s1\<lparr>activeModal := None, selectedRecordId := None\<rparr>))"

text \<open>\<open>startTimer\<close> (lines 176-187): no test of the current state precedes the updates.\<close>

definition startTimer :: "int \<Rightarrow> App \<Rightarrow> App" where
  "startTimer now s =
    s\<lparr>activeModal := None,
      isTimerRunning := True,
      sessionStartTime := Some now,
      timeLeft := SESSION_DURATION,
      fund := fund s + PLEDGE_AMOUNT\<rparr>"

text \<open>\<open>stopTimer\<close> (lines 189-207): the session is given up.\<close>

definition stopTimer :: "int \<Rightarrow> int \<Rightarrow> App \<Rightarrow> App" where
  "stopTimer idNow tsNow s =
    s\<lparr>activeModal := None,
      isTimerRunning := False,
      sessionStartTime := None,
      timeLeft := SESSION_DURATION,
      fund := fund s - PENALTY_TOTAL,
      records := \<lparr>id_rec = toString idNow, type_rec = FAILURE,
                   amount = RECORD_FAIL_AMOUNT, timestamp = tsNow,
                   description = ''Given Up''\<rparr> # records s\<rparr>"

text \<open>
  The give-up button of the timer card (line 337): it opens the confirmation dialog and
  is rendered only while \<open>isTimerRunning\<close> holds (lines 325-341). The dialog itself is
  rendered whenever \<open>activeModal\<close> is \<open>'stop'\<close> (lines 453-466).
\<close>

definition openStopDialog :: "App \<Rightarrow> App" where
  "openStopDialog s = s\<lparr>activeModal := Some ModalStop\<rparr>"

text \<open>
  The arithmetic of IEEE doubles on the rationals they denote: a decimal literal and
  every sum is rounded to the nearest number with a 53-bit significand, ties to the
  even one. \<open>ulp\<close> is the spacing of doubles around \<open>x\<close> for \<open>1/16 \<le> x < 2\<close>,
  the only range the literals and the running sums of the table visit.
\<close>

definition roundEven :: "rat \<Rightarrow> int" where
  "roundEven x =
    (let f = \<lfloor>x\<rfloor>; d = x - of_int f
     in if d < 1 / 2 then f
        else if 1 / 2 < d then f + 1
        else if even f then f else f + 1)"

definition ulp :: "rat \<Rightarrow> rat" where
  "ulp x =
    (if 1 \<le> x then 1 / 2 ^ 52
     else if 1 / 2 \<le> x then 1 / 2 ^ 53
     else if 1 / 4 \<le> x then 1 / 2 ^ 54
     else if 1 / 8 \<le> x then 1 / 2 ^ 55
     else 1 / 2 ^ 56)"

definition fl :: "rat \<Rightarrow> rat" where
  "fl x = of_int (roundEven (x / ulp x)) * ulp x"

text \<open>
  The selection loop of \<open>playLottery\<close> (lines 243-253): \<open>selectedRule\<close> starts as
  \<open>LOTTERY_RULES[0]\<close> and is replaced by the first rule whose running sum reaches
  \<open>rand\<close>, where the loop stops. \<open>cumulative += rule.probability\<close> adds two
  doubles: \<open>fl (probability rule)\<close> is the double of the literal, and the sum is
  rounded again.
\<close>

fun lotteryLoop :: "LotteryRule list \<Rightarrow> rat \<Rightarrow> rat \<Rightarrow> LotteryRule \<Rightarrow> LotteryRule" where
  "lotteryLoop [] rand cumulative selectedRule = selectedRule"
| "lotteryLoop (rule # rest) rand cumulative selectedRule =
    (let cumulative' = fl (cumulative + fl (probability rule))
     in if rand \<le> cumulative' then rule
        else lotteryLoop rest rand cumulative' selectedRule)"

definition selectRule :: "rat \<Rightarrow> LotteryRule" where
  "selectRule rand = lotteryLoop LOTTERY_RULES rand 0 (LOTTERY_RULES ! 0)"

text \<open>
  \<open>playLottery\<close> (lines 237-258); \<open>rand\<close> is the value of \<open>Math.random()\<close>, a
  double that is at least 0 and less than 1, hence at most \<open>1 - 1 / 2 ^ 53\<close>.
\<close>

definition playLottery :: "rat \<Rightarrow> int \<Rightarrow> int \<Rightarrow> App \<Rightarrow> App" where
  "playLottery rand idNow tsNow s =
    (if spinsAvailable s \<le> 0 then s
     else
       (let selectedRule = selectRule rand;
            s1 = s\<lparr>activeModal := None, spinsAvailable := spinsAvailable s - 1\<rparr>;
            s2 = s1\<lparr>lotteryResult := Some (amount_rule selectedRule, label selectedRule)\<rparr>;
            s3 = addStandardRecord LOTTERY (amount_rule selectedRule)
                   (''Lottery: '' @ label selectedRule) idNow tsNow s2
        in s3\<lparr>activeModal := Some ModalLotteryResult\<rparr>))"

section \<open>Persistence (src/App.tsx, lines 119-160)\<close>

text \<open>
  The store holds one string under one key. What matters of that string is what
  \<open>JSON.parse\<close> makes of it: it throws (\<open>Malformed\<close>; also the text \<open>null\<close>,
  on which the first field access throws), or it yields an object whose fields may be
  missing or \<open>null\<close> (\<open>Json\<close>, with \<open>None\<close> for both). A missing entry is
  \<open>None\<close>; the empty string, which \<open>if (storedData)\<close> skips, loads nothing either
  and counts as \<open>Malformed\<close>. \<open>JSON.stringify\<close> of an
  \<open>AppState\<close> is the text that parses to the object with the same fields: the JSON
  library is taken to round-trip integers, strings, arrays and \<open>null\<close>.
\<close>

record Parsed =
  fund_p :: "int option"
  target_p :: "int option"
  successCount_p :: "int option"
  spinsAvailable_p :: "int option"
  records_p :: "HistoryRecord list option"
  sessionStartTime_p :: "int option"

datatype Stored = Malformed | Json Parsed

definition stringify :: "AppState \<Rightarrow> Stored" where
  "stringify d =
    Json \<lparr>fund_p = Some (fund_s d), target_p = Some (target_s d),
          successCount_p = Some (successCount_s d),
          spinsAvailable_p = Some (spinsAvailable_s d),
          records_p = Some (records_s d),
          sessionStartTime_p = sessionStartTime_s d\<rparr>"

text \<open>The object \<open>data\<close> that the save effect builds (lines 151-158).\<close>

definition snapshot :: "App \<Rightarrow> AppState" where
  "snapshot s =
    \<lparr>fund_s = fund s, target_s = TARGET_AMOUNT, successCount_s = successCount s,
     spinsAvailable_s = spinsAvailable s, records_s = records s,
     sessionStartTime_s = sessionStartTime s\<rparr>"

text \<open>The save effect (lines 150-160): the new content of the store entry.\<close>

definition saveEffect :: "App \<Rightarrow> Stored option" where
  "saveEffect s = Some (stringify (snapshot s))"

text \<open>\<open>parsed.x ?? dflt\<close>.\<close>

definition nullish :: "'a option \<Rightarrow> 'a \<Rightarrow> 'a" where
  "nullish v dflt = (case v of Some x \<Rightarrow> x | None \<Rightarrow> dflt)"

text \<open>
  The load effect (lines 121-148), run once on the mounted component; \<open>now\<close> is the
  clock reading of line 132. \<open>if (parsed.sessionStartTime)\<close> is false for a missing
  field, for \<open>null\<close> and for the number \<open>0\<close>. \<open>Math.floor\<close> of the quotient of two
  integers is \<open>div\<close> on \<open>int\<close>, which rounds down for negative values as well.
\<close>

definition loadEffect :: "Stored option \<Rightarrow> int \<Rightarrow> App \<Rightarrow> App" where
  "loadEffect storedData now s =
    (case storedData of
       None \<Rightarrow> s
     | Some Malformed \<Rightarrow> s
     | Some (Json parsed) \<Rightarrow>
         (let s1 = s\<lparr>fund := nullish (fund_p parsed) 0,
                     records := nullish (records_p parsed) [],
                     successCount := nullish (successCount_p parsed) 0,
                     spinsAvailable := nullish (spinsAvailable_p parsed) 0\<rparr>
          in case sessionStartTime_p parsed of
               None \<Rightarrow> s1
             | Some start \<Rightarrow>
                 if start = 0 then s1
                 else
                   (let elapsedSeconds = (now - start) div 1000;
                        remaining = SESSION_DURATION - elapsedSeconds
                    in if remaining > 0
                       then s1\<lparr>sessionStartTime := Some start,
                               timeLeft := remaining,
                               isTimerRunning := True\<rparr>
                       else s1\<lparr>sessionStartTime := None\<rparr>)))"

text \<open>Mounting the component: the load effect on the initial state.\<close>

definition mount :: "Stored option \<Rightarrow> int \<Rightarrow> App" where
  "mount storedData now = loadEffect storedData now initialApp"

section \<open>Sequences of controller operations\<close>

text \<open>
  The user intents and the expiry of the countdown, each with the clock readings and
  the random value it consumes. \<open>Delete i\<close> is the trash button of the record with id
  \<open>i\<close> (line 418: it selects the id and opens the dialog) followed by the dialog's
  Delete button (line 476).
\<close>

datatype Op =
  Start int
  | Abandon int int
  | Expire int int
  | Draw rat int int
  | Delete string

fun step :: "Op \<Rightarrow> App \<Rightarrow> App" where
  "step (Start now) s = startTimer now s"
| "step (Abandon idNow tsNow) s = stopTimer idNow tsNow s"
| "step (Expire idNow tsNow) s = finishTimer idNow tsNow s"
| "step (Draw rand idNow tsNow) s = playLottery rand idNow tsNow s"
| "step (Delete i) s =
     deleteRecord (s\<lparr>selectedRecordId := Some i, activeModal := Some ModalDelete\<rparr>)"

fun run :: "Op list \<Rightarrow> App \<Rightarrow> App" where
  "run [] s = s"
| "run (x # xs) s = run xs (step x s)"

section \<open>Predicates of the properties\<close>

text \<open>
  The ledger invariant: the fund is the sum of the amounts of the records present, plus
  the pledge when a session is active (\<open>sessionStartTime\<close> is not \<open>null\<close>).
\<close>

definition ledger_inv :: "App \<Rightarrow> bool" where
  "ledger_inv s =
    (fund s = sum_list (map amount (records s))
              + (if sessionStartTime s \<noteq> None then PLEDGE_AMOUNT else 0))"

text \<open>The two state variables that say a session is active agree.\<close>

definition timer_consistent :: "App \<Rightarrow> bool" where
  "timer_consistent s = (isTimerRunning s = (sessionStartTime s \<noteq> None))"

text \<open>
  Conditions on a sequence under which the ledger invariant is kept: start only while
  no session runs, abandon and expiry only while one runs, and a delete whose id names
  at most one record. The page shows the start button only while no session runs and
  schedules the countdown only while \<open>isTimerRunning\<close> holds (line 211); the
  condition on abandon it does not enforce, since the give-up dialog stays open across
  an expiry.
\<close>

fun enabled :: "Op \<Rightarrow> App \<Rightarrow> bool" where
  "enabled (Start now) s = (\<not> isTimerRunning s)"
| "enabled (Abandon idNow tsNow) s = isTimerRunning s"
| "enabled (Expire idNow tsNow) s = isTimerRunning s"
| "enabled (Draw rand idNow tsNow) s = True"
| "enabled (Delete i) s = (length (filter (\<lambda>r. id_rec r = i) (records s)) \<le> 1)"

fun guarded :: "Op list \<Rightarrow> App \<Rightarrow> bool" where
  "guarded [] s = True"
| "guarded (x # xs) s = (enabled x s \<and> guarded xs (step x s))"

text \<open>
  Operation sequences by what they contain: the number of expiries (completed
  sessions), and the absence of lottery draws.
\<close>

fun isExpire :: "Op \<Rightarrow> bool" where
  "isExpire (Expire idNow tsNow) = True"
| "isExpire x = False"

fun isDraw :: "Op \<Rightarrow> bool" where
  "isDraw (Draw rand idNow tsNow) = True"
| "isDraw x = False"

definition completions :: "Op list \<Rightarrow> nat" where
  "completions ops = length (filter isExpire ops)"

definition draw_free :: "Op list \<Rightarrow> bool" where
  "draw_free ops = (filter isDraw ops = [])"

text \<open>
  The draw as the specification words it, to be compared with \<open>selectRule\<close>: the
  running sum after tier \<open>k\<close> (accumulated in doubles, as the code and the
  specification have it), the first tier in declared order whose running sum is at
  least \<open>r\<close>, and the final tier when there is none.
\<close>

definition cumulativeUpTo :: "LotteryRule list \<Rightarrow> nat \<Rightarrow> rat" where
  "cumulativeUpTo rules k =
    foldl (\<lambda>c rule. fl (c + fl (probability rule))) 0 (take (Suc k) rules)"

definition drawSpec :: "LotteryRule list \<Rightarrow> rat \<Rightarrow> LotteryRule" where
  "drawSpec rules r =
    (case find (\<lambda>k. r \<le> cumulativeUpTo rules k) [0..<length rules] of
       Some k \<Rightarrow> rules ! k
     | None \<Rightarrow> last rules)"

section \<open>Auxiliary facts\<close>

lemmas const_defs =
  TARGET_AMOUNT_def SESSION_DURATION_def PLEDGE_AMOUNT_def PENALTY_TOTAL_def
  RECORD_FAIL_AMOUNT_def RECORD_SUCCESS_AMOUNT_def SPINS_THRESHOLD_def

lemma find_none_filter:
  "find (\<lambda>r. id_rec r = i) rs = None \<Longrightarrow> filter (\<lambda>r. id_rec r \<noteq> i) rs = rs"
  by (induction rs) (auto split: if_splits)

lemma filter_empty_find_none:
  "filter (\<lambda>r. id_rec r = i) rs = [] \<Longrightarrow> find (\<lambda>r. id_rec r = i) rs = None"
  by (induction rs) (auto split: if_splits)

text \<open>Deleting the only record with an id takes exactly its amount out of the sum.\<close>

lemma sum_filter_unique:
  "length (filter (\<lambda>r. id_rec r = i) rs) \<le> 1 \<Longrightarrow>
   find (\<lambda>r. id_rec r = i) rs = Some r \<Longrightarrow>
   sum_list (map amount (filter (\<lambda>r. id_rec r \<noteq> i) rs))
     = sum_list (map amount rs) - amount r"
proof (induction rs)
  case Nil
  then show ?case by simp
next
  case (Cons x xs)
  show ?case
  proof (cases "id_rec x = i")
    case True
    with Cons.prems have "filter (\<lambda>r. id_rec r = i) xs = []" and "r = x"
      by simp_all
    then have "filter (\<lambda>r. id_rec r \<noteq> i) xs = xs"
      using find_none_filter filter_empty_find_none by blast
    with True \<open>r = x\<close> show ?thesis by simp
  next
    case False
    with Cons show ?thesis by simp
  qed
qed

lemma deleteRecord_inv:
  assumes "ledger_inv s" "length (filter (\<lambda>r. id_rec r = i) (records s)) \<le> 1"
  shows "ledger_inv (step (Delete i) s)"
proof (cases "find (\<lambda>r. id_rec r = i) (records s)")
  case None
  with assms(1) show ?thesis
    by (simp add: deleteRecord_def ledger_inv_def)
next
  case (Some r)
  from sum_filter_unique[OF assms(2) Some] assms(1) Some show ?thesis
    by (simp add: deleteRecord_def ledger_inv_def)
qed

lemma step_inv:
  assumes "ledger_inv s" "timer_consistent s" "enabled x s"
  shows "ledger_inv (step x s) \<and> timer_consistent (step x s)"
proof (cases x)
  case (Start now)
  with assms show ?thesis
    by (simp add: startTimer_def ledger_inv_def timer_consistent_def const_defs)
next
  case (Abandon idNow tsNow)
  with assms show ?thesis
    by (simp add: stopTimer_def ledger_inv_def timer_consistent_def const_defs)
next
  case (Expire idNow tsNow)
  with assms show ?thesis
    by (simp add: finishTimer_def ledger_inv_def timer_consistent_def const_defs Let_def)
next
  case (Draw rand idNow tsNow)
  with assms show ?thesis
    by (simp add: playLottery_def addStandardRecord_def ledger_inv_def
        timer_consistent_def Let_def)
next
  case (Delete i)
  with assms have "ledger_inv (step x s)"
    using deleteRecord_inv by simp
  moreover from assms(2) Delete have "timer_consistent (step x s)"
    by (simp add: deleteRecord_def timer_consistent_def Let_def split: option.splits)
  ultimately show ?thesis ..
qed

lemma find_first_match:
  "filter P xs \<noteq> [] \<Longrightarrow> find P xs = Some (hd (filter P xs))"
  by (induction xs) auto

lemma length_filter_split:
  "length (filter (\<lambda>x. \<not> P x) xs) + length (filter P xs) = length xs"
  by (induction xs) auto

lemma sum_filter_split:
  "sum_list (map f (filter (\<lambda>x. \<not> P x) xs)) + sum_list (map f (filter P xs))
     = sum_list (map (f :: 'a \<Rightarrow> int) xs)"
  by (induction xs) auto

text \<open>Two positions that satisfy a predicate give at least two matches.\<close>

lemma two_matches:
  assumes "j < k" "k < length xs" "P (xs ! j)" "P (xs ! k)"
  shows "2 \<le> length (filter P xs)"
proof -
  have xs: "xs = take k xs @ xs ! k # drop (Suc k) xs"
    using assms(2) by (simp add: id_take_nth_drop)
  have "xs ! j \<in> set (take k xs)"
    using assms(1,2)
    by (metis in_set_conv_nth length_take min.absorb2 nth_take less_imp_le_nat)
  with assms(3) have "filter P (take k xs) \<noteq> []"
    by (auto simp: filter_empty_conv)
  then have "1 \<le> length (filter P (take k xs))"
    by (cases "filter P (take k xs)") simp_all
  moreover have "length (filter P xs)
      = length (filter P (take k xs)) + length (filter P (xs ! k # drop (Suc k) xs))"
    by (subst xs) simp
  moreover have "1 \<le> length (filter P (xs ! k # drop (Suc k) xs))"
    using assms(4) by simp
  ultimately show ?thesis by linarith
qed

text \<open>Every generated id is a decimal numeral, hence not the empty string.\<close>

lemma digits_not_empty: "digits n \<noteq> []"
  by (subst digits.simps) simp

lemma toString_not_empty: "toString t \<noteq> []"
  by (simp add: toString_def digits_not_empty)

text \<open>Fewer than 300 whole seconds are fewer than 300000 milliseconds.\<close>

lemma whole_seconds: "(x div 1000 < 300) = (x < 300000)" for x :: int
proof -
  have "x = 1000 * (x div 1000) + x mod 1000"
    by simp
  moreover have "0 \<le> x mod 1000" and "x mod 1000 < 1000"
    by simp_all
  ultimately show ?thesis
    by linarith
qed

text \<open>The counters under one operation other than a draw, and under a run of them.\<close>

lemma deleteRecord_counters:
  "successCount (deleteRecord s) = successCount s
   \<and> spinsAvailable (deleteRecord s) = spinsAvailable s"
  by (simp add: deleteRecord_def Let_def split: option.splits)

lemma step_counts:
  "\<not> isDraw x \<Longrightarrow>
   successCount (step x s) = successCount s + (if isExpire x then 1 else 0)
   \<and> spinsAvailable (step x s) - successCount (step x s) div 5
       = spinsAvailable s - successCount s div 5"
proof (cases x)
  case (Expire idNow tsNow)
  have "(c + 1) div 5 - c div 5 = (if (c + 1) mod 5 = 0 then 1 else 0)" for c :: int
    by presburger
  from this[of "successCount s"] Expire show ?thesis
    by (simp add: finishTimer_def Let_def const_defs split: if_splits)
next
  case (Delete i)
  then show ?thesis
    using deleteRecord_counters[of
        "s\<lparr>selectedRecordId := Some i, activeModal := Some ModalDelete\<rparr>"]
    by simp
qed (simp_all add: startTimer_def stopTimer_def)

lemma run_counts:
  "draw_free ops \<Longrightarrow>
   successCount (run ops s) = successCount s + int (completions ops)
   \<and> spinsAvailable (run ops s) - successCount (run ops s) div 5
       = spinsAvailable s - successCount s div 5"
proof (induction ops arbitrary: s)
  case Nil
  then show ?case by (simp add: completions_def)
next
  case (Cons x xs)
  from Cons.prems have nd: "\<not> isDraw x" and df: "draw_free xs"
    by (auto simp: draw_free_def split: if_splits)
  have n: "int (completions (x # xs)) = (if isExpire x then 1 else 0) + int (completions xs)"
    by (simp add: completions_def)
  note ih = Cons.IH[OF df, of "step x s"]
  have 1: "successCount (run (x # xs) s) = successCount (step x s) + int (completions xs)"
    using ih[THEN conjunct1] by simp
  have 2: "spinsAvailable (run (x # xs) s) - successCount (run (x # xs) s) div 5
            = spinsAvailable (step x s) - successCount (step x s) div 5"
    using ih[THEN conjunct2] by simp
  note st = step_counts[OF nd, of s]
  have 3: "successCount (step x s) = successCount s + (if isExpire x then 1 else 0)"
    using st[THEN conjunct1] .
  have 4: "spinsAvailable (step x s) - successCount (step x s) div 5
            = spinsAvailable s - successCount s div 5"
    using st[THEN conjunct2] .
  from 1 3 n
  have "successCount (run (x # xs) s) = successCount s + int (completions (x # xs))"
    by linarith
  moreover from 2 4
  have "spinsAvailable (run (x # xs) s) - successCount (run (x # xs) s) div 5
        = spinsAvailable s - successCount s div 5"
    by (rule trans)
  ultimately show ?case ..
qed

text \<open>
  The doubles of the four literals and of the four running sums. The sums are 0.4,
  0.7, 0.8999999999999999 and 0.9999999999999999; the last is \<open>1 - 1 / 2 ^ 53\<close>, the
  largest double below 1, so every value of \<open>Math.random()\<close> is matched by the fourth
  rule at the latest.
\<close>

lemma floor_rat_numeral:
  "\<lfloor>(numeral a :: rat) / numeral b\<rfloor> = numeral a div numeral b"
  using floor_divide_of_int_eq[of "numeral a" "numeral b", where ?'a = rat] by simp

lemma fl_literals:
  "fl (4 / 10) = 3602879701896397 / 2 ^ 53"
  "fl (3 / 10) = 5404319552844595 / 2 ^ 54"
  "fl (2 / 10) = 3602879701896397 / 2 ^ 54"
  "fl (1 / 10) = 3602879701896397 / 2 ^ 55"
  by (simp_all add: fl_def ulp_def roundEven_def Let_def floor_rat_numeral)

lemma fl_sums:
  "fl (0 + 3602879701896397 / 2 ^ 53) = 3602879701896397 / 2 ^ 53"
  "fl (3602879701896397 / 2 ^ 53 + 5404319552844595 / 2 ^ 54) = 6305039478318694 / 2 ^ 53"
  "fl (6305039478318694 / 2 ^ 53 + 3602879701896397 / 2 ^ 54) = 8106479329266892 / 2 ^ 53"
  "fl (8106479329266892 / 2 ^ 53 + 3602879701896397 / 2 ^ 55) = 9007199254740991 / 2 ^ 53"
  by (simp_all add: fl_def ulp_def roundEven_def Let_def floor_rat_numeral)

text \<open>
  The selection loop on the declared table, by the four running sums. From the first
  double above the last sum on (so from 1 on) no rule matches and the loop returns its
  initial value, the first rule.
\<close>

lemma selectRule_table:
  "selectRule r =
    (if r \<le> 3602879701896397 / 2 ^ 53 then LOTTERY_RULES ! 0
     else if r \<le> 6305039478318694 / 2 ^ 53 then LOTTERY_RULES ! 1
     else if r \<le> 8106479329266892 / 2 ^ 53 then LOTTERY_RULES ! 2
     else if r \<le> 9007199254740991 / 2 ^ 53 then LOTTERY_RULES ! 3
     else LOTTERY_RULES ! 0)"
  unfolding selectRule_def LOTTERY_RULES_def
  by (simp only: lotteryLoop.simps Let_def LotteryRule.simps fl_literals fl_sums
        nth_Cons_0 nth_Cons_numeral)
     simp

lemma selectRule_default: "1 - 1 / 2 ^ 53 < r \<Longrightarrow> selectRule r = LOTTERY_RULES ! 0"
  by (simp add: selectRule_table)

text \<open>The draw of the specification on the declared table, by the same sums.\<close>

lemma cumulativeUpTo_table:
  "cumulativeUpTo LOTTERY_RULES 0 = 3602879701896397 / 2 ^ 53"
  "cumulativeUpTo LOTTERY_RULES (Suc 0) = 6305039478318694 / 2 ^ 53"
  "cumulativeUpTo LOTTERY_RULES 2 = 8106479329266892 / 2 ^ 53"
  "cumulativeUpTo LOTTERY_RULES 3 = 9007199254740991 / 2 ^ 53"
  unfolding cumulativeUpTo_def LOTTERY_RULES_def
  by (simp_all only: take_Suc_Cons take_0 numeral_2_eq_2 numeral_3_eq_3
        foldl_Cons foldl_Nil LotteryRule.simps fl_literals fl_sums)

lemma drawSpec_table:
  "drawSpec LOTTERY_RULES r =
    (if r \<le> 3602879701896397 / 2 ^ 53 then LOTTERY_RULES ! 0
     else if r \<le> 6305039478318694 / 2 ^ 53 then LOTTERY_RULES ! 1
     else if r \<le> 8106479329266892 / 2 ^ 53 then LOTTERY_RULES ! 2
     else LOTTERY_RULES ! 3)"
proof -
  have len: "length LOTTERY_RULES = 4"
    by (simp add: LOTTERY_RULES_def)
  have upt: "[0..<4] = [0, Suc 0, 2, 3]"
    by (simp add: upt_rec)
  have l: "last LOTTERY_RULES = LOTTERY_RULES ! 3"
    by (simp add: LOTTERY_RULES_def)
  show ?thesis
    unfolding drawSpec_def len upt
    by (simp only: find.simps cumulativeUpTo_table l) simp
qed

text \<open>Some tier always reaches a value of \<open>Math.random()\<close>.\<close>

lemma some_tier_matches:
  "r \<le> 1 - 1 / 2 ^ 53 \<Longrightarrow>
   find (\<lambda>k. r \<le> cumulativeUpTo LOTTERY_RULES k) [0..<length LOTTERY_RULES] \<noteq> None"
proof -
  assume r: "r \<le> 1 - 1 / 2 ^ 53"
  have len: "length LOTTERY_RULES = 4"
    by (simp add: LOTTERY_RULES_def)
  have upt: "[0..<4] = [0, Suc 0, 2, 3]"
    by (simp add: upt_rec)
  show ?thesis
    unfolding len upt using r
    by (simp only: find.simps cumulativeUpTo_table) simp
qed

section \<open>The ledger invariant\<close>

text \<open>
  Claim C1: after every sequence of start, abandon, expire, lottery draw and record
  delete, the fund equals the sum of the amounts of the records present, plus the
  pledge of 10 exactly when a session is active. The code breaks it on a path that the
  page offers. A session is started; while it runs the give-up dialog is opened; the
  countdown expires, and \<open>finishTimer\<close> records the success but leaves the dialog
  open; its Give Up button (lines 453-466) then calls \<open>stopTimer\<close> with no session
  running. The fund is -10, the history holds the failure of -10 and the success of
  10, whose sum is 0, and no session is active.
\<close>

theorem give_up_after_expiry_breaks_ledger:
  "isTimerRunning (startTimer 1 initialApp)
   \<and> activeModal (finishTimer 2 3 (openStopDialog (startTimer 1 initialApp)))
       = Some ModalStop
   \<and> fund (stopTimer 4 5 (finishTimer 2 3 (openStopDialog (startTimer 1 initialApp))))
       = - 10
   \<and> map amount
        (records (stopTimer 4 5 (finishTimer 2 3 (openStopDialog (startTimer 1 initialApp)))))
       = [- 10, 10]
   \<and> sessionStartTime
        (stopTimer 4 5 (finishTimer 2 3 (openStopDialog (startTimer 1 initialApp)))) = None
   \<and> \<not> ledger_inv
        (stopTimer 4 5 (finishTimer 2 3 (openStopDialog (startTimer 1 initialApp))))
   \<and> stopTimer 4 5 (finishTimer 2 3 (openStopDialog (startTimer 1 initialApp)))
       = run [Start 1, Expire 2 3, Abandon 4 5] initialApp"
  by (simp add: ledger_inv_def startTimer_def stopTimer_def finishTimer_def
      openStopDialog_def initialApp_def const_defs Let_def)

text \<open>
  The second defect behind the same claim: two records made at one clock reading share
  their id, and the delete of that id removes both and gives back the amount of the
  first match only (see the section on shared ids). Here the expiry and the give-up
  fall on the reading 2.
\<close>

lemma shared_id_delete_breaks_ledger:
  "\<not> ledger_inv (run [Start 1, Expire 2 2, Start 2, Abandon 2 2, Delete ''2''] initialApp)"
  by (simp add: ledger_inv_def startTimer_def stopTimer_def finishTimer_def
      deleteRecord_def toString_def initialApp_def const_defs Let_def)

text \<open>
  Apart from these two paths the invariant is kept: from a state where it holds and the
  two session variables agree (the initial state is one), along every sequence in which
  start comes only while no session runs, abandon and expiry only while one runs, and a
  delete names an id that at most one record carries.
\<close>

lemma guarded_run_ledger:
  "ledger_inv s \<Longrightarrow> timer_consistent s \<Longrightarrow> guarded ops s \<Longrightarrow>
   ledger_inv (run ops s) \<and> timer_consistent (run ops s)"
proof (induction ops arbitrary: s)
  case Nil
  then show ?case by simp
next
  case (Cons x xs)
  from Cons.prems have "ledger_inv (step x s) \<and> timer_consistent (step x s)"
    using step_inv by simp
  with Cons show ?case by simp
qed

lemma guarded_run_ledger_instance:
  "ledger_inv initialApp \<and> timer_consistent initialApp
   \<and> guarded [Start 1000, Expire 301000 301000, Start 302000, Abandon 303000 303000,
               Delete ''303000'', Draw (1 / 2) 304000 304000] initialApp
   \<and> ledger_inv (run [Start 1000, Expire 301000 301000, Start 302000,
                      Abandon 303000 303000, Delete ''303000'',
                      Draw (1 / 2) 304000 304000] initialApp)"
  using guarded_run_ledger[of initialApp
      "[Start 1000, Expire 301000 301000, Start 302000, Abandon 303000 303000,
        Delete ''303000'', Draw (1 / 2) 304000 304000]"]
  by (simp add: ledger_inv_def timer_consistent_def initialApp_def startTimer_def
      stopTimer_def finishTimer_def playLottery_def deleteRecord_def toString_def
      const_defs Let_def)

section \<open>The lottery draw\<close>

text \<open>
  Claim C2: for every random value \<open>r\<close> in [0,1), that is, for every double from 0 up
  to the largest one below 1, which is \<open>1 - 1 / 2 ^ 53\<close>: the rule that
  \<open>playLottery\<close> selects is the first tier, in declared order, whose running sum of
  probabilities is at least \<open>r\<close>, with the final tier as the default when there is
  none (\<open>drawSpec\<close>); some tier always has such a sum, so the default is never
  called for; the selected rule is one of the four declared tiers; and a draw with a
  spin available always produces its result: the result shown, the lottery record and
  the payout are those of that tier. The sums are those of the code, in doubles.
  (The loop's own default, its initial value, is the first rule, reached only from 1
  on: \<open>selectRule_default\<close>.)
\<close>

theorem selectRule_first_tier:
  assumes "0 \<le> r" "r \<le> 1 - 1 / 2 ^ 53"
  shows "selectRule r = drawSpec LOTTERY_RULES r
    \<and> find (\<lambda>k. r \<le> cumulativeUpTo LOTTERY_RULES k) [0..<length LOTTERY_RULES] \<noteq> None
    \<and> selectRule r \<in> set LOTTERY_RULES
    \<and> (0 < spinsAvailable s \<longrightarrow>
         lotteryResult (playLottery r idNow tsNow s)
           = Some (amount_rule (drawSpec LOTTERY_RULES r), label (drawSpec LOTTERY_RULES r))
         \<and> records (playLottery r idNow tsNow s)
           = \<lparr>id_rec = toString idNow, type_rec = LOTTERY,
               amount = amount_rule (drawSpec LOTTERY_RULES r), timestamp = tsNow,
               description = ''Lottery: '' @ label (drawSpec LOTTERY_RULES r)\<rparr> # records s
         \<and> fund (playLottery r idNow tsNow s)
           = fund s + amount_rule (drawSpec LOTTERY_RULES r))"
proof -
  have eq: "selectRule r = drawSpec LOTTERY_RULES r"
    using assms(2) by (simp add: selectRule_table drawSpec_table)
  have "drawSpec LOTTERY_RULES r \<in> set LOTTERY_RULES"
    by (simp add: drawSpec_table) (simp add: LOTTERY_RULES_def)
  with eq have mem: "selectRule r \<in> set LOTTERY_RULES"
    by simp
  have play: "0 < spinsAvailable s \<longrightarrow>
         lotteryResult (playLottery r idNow tsNow s)
           = Some (amount_rule (selectRule r), label (selectRule r))
         \<and> records (playLottery r idNow tsNow s)
           = \<lparr>id_rec = toString idNow, type_rec = LOTTERY,
               amount = amount_rule (selectRule r), timestamp = tsNow,
               description = ''Lottery: '' @ label (selectRule r)\<rparr> # records s
         \<and> fund (playLottery r idNow tsNow s) = fund s + amount_rule (selectRule r)"
    by (simp add: playLottery_def addStandardRecord_def Let_def)
  from eq mem play some_tier_matches[OF assms(2)] show ?thesis
    by simp
qed

text \<open>
  At the double of 0.4, which lies above 2/5, the first tier is selected and 10 is paid;
  at 0.75 the third tier is selected and 40 is paid.
\<close>

theorem selectRule_first_tier_witness:
  "(0 :: rat) \<le> 3602879701896397 / 2 ^ 53
   \<and> (3602879701896397 / 2 ^ 53 :: rat) \<le> 1 - 1 / 2 ^ 53
   \<and> (2 / 5 :: rat) < 3602879701896397 / 2 ^ 53
   \<and> selectRule (3602879701896397 / 2 ^ 53) = LOTTERY_RULES ! 0
   \<and> drawSpec LOTTERY_RULES (3602879701896397 / 2 ^ 53) = LOTTERY_RULES ! 0
   \<and> fund (playLottery (3602879701896397 / 2 ^ 53) 5000 5001
        (initialApp\<lparr>spinsAvailable := 1\<rparr>)) = 10
   \<and> selectRule (3 / 4) = LOTTERY_RULES ! 2
   \<and> fund (playLottery (3 / 4) 5000 5001 (initialApp\<lparr>spinsAvailable := 1\<rparr>)) = 40"
  using selectRule_first_tier[of "3602879701896397 / 2 ^ 53"
      "initialApp\<lparr>spinsAvailable := 1\<rparr>" 5000 5001]
    selectRule_first_tier[of "3 / 4" "initialApp\<lparr>spinsAvailable := 1\<rparr>" 5000 5001]
  by (simp add: drawSpec_table selectRule_table) (simp add: initialApp_def LOTTERY_RULES_def)

section \<open>Resuming a session on load\<close>


text \<open>
  For every other stored start the load effect does what the claim says, with the
  elapsed time counted in whole seconds (\<open>(now - start) div 1000\<close>): if it is less
  than the session duration of 300 (that is, fewer than 300000 milliseconds have
  passed), the machine is running again with the stored start and
  \<open>timeLeft = SESSION_DURATION - elapsed\<close>; otherwise \<open>sessionStartTime\<close> is cleared
  and the machine is idle. In both cases the history is the stored one: no success or
  failure record is added, and the fund and the success count are the stored ones.
\<close>

lemma resume_on_load:
  assumes "sessionStartTime_p parsed = Some start" "start \<noteq> 0"
  shows "((now - start) div 1000 < SESSION_DURATION \<longrightarrow>
            isTimerRunning (mount (Some (Json parsed)) now)
            \<and> sessionStartTime (mount (Some (Json parsed)) now) = Some start
            \<and> timeLeft (mount (Some (Json parsed)) now)
                = SESSION_DURATION - (now - start) div 1000)
       \<and> (\<not> (now - start) div 1000 < SESSION_DURATION \<longrightarrow>
            \<not> isTimerRunning (mount (Some (Json parsed)) now)
            \<and> sessionStartTime (mount (Some (Json parsed)) now) = None
            \<and> timeLeft (mount (Some (Json parsed)) now) = SESSION_DURATION)
       \<and> records (mount (Some (Json parsed)) now) = nullish (records_p parsed) []
       \<and> fund (mount (Some (Json parsed)) now) = nullish (fund_p parsed) 0
       \<and> successCount (mount (Some (Json parsed)) now) = nullish (successCount_p parsed) 0
       \<and> ((now - start) div 1000 < SESSION_DURATION) = (now - start < 300000)"
  using assms
  by (simp add: mount_def loadEffect_def initialApp_def Let_def const_defs whole_seconds)

text \<open>
  The two cases of the specification: a start stored 200 seconds ago resumes with 100
  seconds left; a start stored 400 seconds ago leaves the machine idle with the stored
  history.
\<close>

lemma resume_on_load_instance:
  "isTimerRunning (mount (saveEffect (startTimer 1000 initialApp)) 201000)
   \<and> timeLeft (mount (saveEffect (startTimer 1000 initialApp)) 201000) = 100
   \<and> \<not> isTimerRunning (mount (saveEffect (startTimer 1000 initialApp)) 401000)
   \<and> sessionStartTime (mount (saveEffect (startTimer 1000 initialApp)) 401000) = None
   \<and> records (mount (saveEffect (startTimer 1000 initialApp)) 401000) = []"
  using resume_on_load[of
      "\<lparr>fund_p = Some 10, target_p = Some 1000, successCount_p = Some 0,
        spinsAvailable_p = Some 0, records_p = Some [], sessionStartTime_p = Some 1000\<rparr>"
      1000 201000]
    resume_on_load[of
      "\<lparr>fund_p = Some 10, target_p = Some 1000, successCount_p = Some 0,
        spinsAvailable_p = Some 0, records_p = Some [], sessionStartTime_p = Some 1000\<rparr>"
      1000 401000]
  by (simp add: saveEffect_def stringify_def snapshot_def startTimer_def initialApp_def
      nullish_def const_defs)

text \<open>
  The remaining time counts whole seconds: 200.999 seconds after the start, 100 seconds
  are left.
\<close>

lemma resume_counts_whole_seconds:
  "timeLeft (mount (saveEffect (startTimer 1000 initialApp)) 201999) = 100"
  by (simp add: mount_def loadEffect_def saveEffect_def stringify_def snapshot_def
      startTimer_def initialApp_def nullish_def Let_def const_defs)

section \<open>Saving and loading\<close>

text \<open>
  Claim C4, as stated: a saved and reloaded snapshot is the same in every field, the
  remaining time apart. It fails for \<open>sessionStartTime\<close>: a session started at time
  1000, saved, and loaded 400 seconds later comes back with no session; so does a
  session whose start is the clock reading 0, loaded one second later.
\<close>

theorem lapsed_session_not_restored:
  "sessionStartTime_s (snapshot (startTimer 1000 initialApp)) = Some 1000
   \<and> sessionStartTime_s
       (snapshot (mount (saveEffect (startTimer 1000 initialApp)) 401000)) = None
   \<and> sessionStartTime_s (snapshot (startTimer 0 initialApp)) = Some 0
   \<and> sessionStartTime_s
       (snapshot (mount (saveEffect (startTimer 0 initialApp)) 1000)) = None"
  by (simp add: mount_def loadEffect_def saveEffect_def stringify_def snapshot_def
      initialApp_def startTimer_def nullish_def Let_def const_defs)

text \<open>
  Claim C4, amended: for every state of the component, saving it and loading it at time
  \<open>now\<close> gives a snapshot with the same fund, target, success count, spins and
  records; \<open>sessionStartTime\<close> is the same when it was \<open>null\<close>, or when it is not 0
  and fewer than 300 whole seconds have elapsed at \<open>now\<close>, and is \<open>null\<close> otherwise;
  the remaining time is computed anew from the clock.
\<close>

theorem save_then_load:
  "fund_s (snapshot (mount (saveEffect s) now)) = fund_s (snapshot s)
   \<and> target_s (snapshot (mount (saveEffect s) now)) = target_s (snapshot s)
   \<and> successCount_s (snapshot (mount (saveEffect s) now)) = successCount_s (snapshot s)
   \<and> spinsAvailable_s (snapshot (mount (saveEffect s) now)) = spinsAvailable_s (snapshot s)
   \<and> records_s (snapshot (mount (saveEffect s) now)) = records_s (snapshot s)
   \<and> sessionStartTime_s (snapshot (mount (saveEffect s) now)) =
       (case sessionStartTime_s (snapshot s) of
          None \<Rightarrow> None
        | Some start \<Rightarrow>
            if start \<noteq> 0 \<and> (now - start) div 1000 < SESSION_DURATION then Some start
            else None)
   \<and> timeLeft (mount (saveEffect s) now) =
       (case sessionStartTime_s (snapshot s) of
          None \<Rightarrow> SESSION_DURATION
        | Some start \<Rightarrow>
            if start \<noteq> 0 \<and> (now - start) div 1000 < SESSION_DURATION
            then SESSION_DURATION - (now - start) div 1000
            else SESSION_DURATION)"
  by (simp add: mount_def loadEffect_def saveEffect_def stringify_def snapshot_def
      initialApp_def nullish_def Let_def const_defs split: option.splits)

theorem save_then_load_witness:
  "snapshot (mount (saveEffect (finishTimer 301000 301001 (startTimer 1000 initialApp)))
       500000)
     = snapshot (finishTimer 301000 301001 (startTimer 1000 initialApp))
   \<and> snapshot (mount (saveEffect (startTimer 1000 initialApp)) 201000)
     = snapshot (startTimer 1000 initialApp)
   \<and> timeLeft (mount (saveEffect (startTimer 1000 initialApp)) 201000) = 100"
  using save_then_load[of "finishTimer 301000 301001 (startTimer 1000 initialApp)" 500000]
    save_then_load[of "startTimer 1000 initialApp" 201000]
  by (simp add: mount_def loadEffect_def saveEffect_def stringify_def snapshot_def
      initialApp_def startTimer_def finishTimer_def nullish_def Let_def const_defs)

section \<open>Start followed by abandon or by expiry\<close>

text \<open>
  Claim C5: from any state, and so from any idle one, start followed by abandon lowers
  the fund by exactly 10 (start adds the pledge of 10 and no record, abandon takes 20),
  puts exactly one record in front of the history, a failure of amount -10 described as
  "Given Up", and leaves the machine idle.
\<close>

theorem start_then_abandon:
  "fund (startTimer now s) = fund s + 10
   \<and> records (startTimer now s) = records s
   \<and> fund (stopTimer idNow tsNow (startTimer now s)) = fund (startTimer now s) - 20
   \<and> fund (stopTimer idNow tsNow (startTimer now s)) = fund s - 10
   \<and> records (stopTimer idNow tsNow (startTimer now s)) =
       \<lparr>id_rec = toString idNow, type_rec = FAILURE, amount = - 10, timestamp = tsNow,
        description = ''Given Up''\<rparr> # records s
   \<and> \<not> isTimerRunning (stopTimer idNow tsNow (startTimer now s))
   \<and> sessionStartTime (stopTimer idNow tsNow (startTimer now s)) = None
   \<and> timeLeft (stopTimer idNow tsNow (startTimer now s)) = 300"
  by (simp add: startTimer_def stopTimer_def const_defs)

theorem start_then_abandon_witness:
  "fund (stopTimer 2000 2001 (startTimer 1000 initialApp)) = - 10
   \<and> records (stopTimer 2000 2001 (startTimer 1000 initialApp)) =
       [\<lparr>id_rec = ''2000'', type_rec = FAILURE, amount = - 10, timestamp = 2001,
         description = ''Given Up''\<rparr>]
   \<and> \<not> isTimerRunning (stopTimer 2000 2001 (startTimer 1000 initialApp))"
  using start_then_abandon[of 1000 initialApp 2000 2001]
  by (simp add: initialApp_def toString_def)

text \<open>
  Claim C6: from any state, and so from any idle one, start followed by expiry raises
  the fund by exactly 10, all of it at the start (expiry leaves the fund as it is), puts
  exactly one record in front of the history, a success of amount 10 described as
  "Focus Success", raises \<open>successCount\<close> by 1, and raises \<open>spinsAvailable\<close> by 1
  exactly when the new \<open>successCount\<close> is a multiple of 5.
\<close>

theorem start_then_expire:
  "fund (finishTimer idNow tsNow (startTimer now s)) = fund s + 10
   \<and> fund (finishTimer idNow tsNow (startTimer now s)) = fund (startTimer now s)
   \<and> records (finishTimer idNow tsNow (startTimer now s)) =
       \<lparr>id_rec = toString idNow, type_rec = SUCCESS, amount = 10, timestamp = tsNow,
        description = ''Focus Success''\<rparr> # records s
   \<and> successCount (finishTimer idNow tsNow (startTimer now s)) = successCount s + 1
   \<and> spinsAvailable (finishTimer idNow tsNow (startTimer now s)) =
       (if (successCount s + 1) mod 5 = 0 then spinsAvailable s + 1
        else spinsAvailable s)
   \<and> \<not> isTimerRunning (finishTimer idNow tsNow (startTimer now s))
   \<and> sessionStartTime (finishTimer idNow tsNow (startTimer now s)) = None"
  by (simp add: startTimer_def finishTimer_def const_defs Let_def)

theorem start_then_expire_witness:
  "fund (finishTimer 301000 301001 (startTimer 1000 (initialApp\<lparr>successCount := 4\<rparr>))) = 10
   \<and> successCount
       (finishTimer 301000 301001 (startTimer 1000 (initialApp\<lparr>successCount := 4\<rparr>))) = 5
   \<and> spinsAvailable
       (finishTimer 301000 301001 (startTimer 1000 (initialApp\<lparr>successCount := 4\<rparr>))) = 1"
  using start_then_expire[of 301000 301001 1000 "initialApp\<lparr>successCount := 4\<rparr>"]
  by (simp add: initialApp_def)

section \<open>Earning spins\<close>

text \<open>
  Claim C7: from the initial state, along any sequence of starts, abandons, expiries
  and deletes (no spin is consumed), \<open>successCount\<close> is the number of completed
  sessions and \<open>spinsAvailable\<close> is that number divided by 5: 1 after exactly 5
  completions, 2 after exactly 10. A delete never changes \<open>spinsAvailable\<close> or
  \<open>successCount\<close>, also where it removes a success record \<open>r\<close> (the one record with
  its id) and takes the amount of \<open>r\<close> out of the fund.
\<close>

theorem spins_after_completions:
  "(draw_free ops \<longrightarrow>
      successCount (run ops initialApp) = int (completions ops)
      \<and> spinsAvailable (run ops initialApp) = int (completions ops) div 5
      \<and> (completions ops = 5 \<longrightarrow> spinsAvailable (run ops initialApp) = 1)
      \<and> (completions ops = 10 \<longrightarrow> spinsAvailable (run ops initialApp) = 2))
   \<and> successCount (step (Delete i) s) = successCount s
   \<and> spinsAvailable (step (Delete i) s) = spinsAvailable s
   \<and> (filter (\<lambda>x. id_rec x = id_rec r) (records s) = [r] \<and> type_rec r = SUCCESS
        \<and> id_rec r \<noteq> [] \<longrightarrow>
        fund (step (Delete (id_rec r)) s) = fund s - amount r
        \<and> r \<notin> set (records (step (Delete (id_rec r)) s)))"
proof -
  have a: "successCount (run ops initialApp) = int (completions ops)
      \<and> spinsAvailable (run ops initialApp) = int (completions ops) div 5"
    if "draw_free ops"
    using run_counts[OF that, of initialApp] by (simp add: initialApp_def)
  have b: "successCount (step (Delete i) s) = successCount s
      \<and> spinsAvailable (step (Delete i) s) = spinsAvailable s"
    using deleteRecord_counters[of
        "s\<lparr>selectedRecordId := Some i, activeModal := Some ModalDelete\<rparr>"]
    by simp
  have c: "fund (step (Delete (id_rec r)) s) = fund s - amount r
        \<and> r \<notin> set (records (step (Delete (id_rec r)) s))"
    if h: "filter (\<lambda>x. id_rec x = id_rec r) (records s) = [r]" and ne: "id_rec r \<noteq> []"
  proof -
    from h have "filter (\<lambda>x. id_rec x = id_rec r) (records s) \<noteq> []"
      by simp
    from find_first_match[OF this] h
    have "find (\<lambda>x. id_rec x = id_rec r) (records s) = Some r"
      by simp
    then show ?thesis
      using ne by (simp add: deleteRecord_def)
  qed
  from a b c show ?thesis
    by simp
qed

theorem spins_after_completions_witness:
  "draw_free [Start 1, Expire 2 2, Start 3, Expire 4 4, Start 5, Expire 6 6,
              Start 7, Expire 8 8, Start 9, Expire 10 10]
   \<and> completions [Start 1, Expire 2 2, Start 3, Expire 4 4, Start 5, Expire 6 6,
                  Start 7, Expire 8 8, Start 9, Expire 10 10] = 5
   \<and> spinsAvailable (run [Start 1, Expire 2 2, Start 3, Expire 4 4, Start 5, Expire 6 6,
                          Start 7, Expire 8 8, Start 9, Expire 10 10] initialApp) = 1
   \<and> spinsAvailable (step (Delete ''10'')
        (run [Start 1, Expire 2 2, Start 3, Expire 4 4, Start 5, Expire 6 6,
              Start 7, Expire 8 8, Start 9, Expire 10 10] initialApp)) = 1
   \<and> successCount (step (Delete ''10'')
        (run [Start 1, Expire 2 2, Start 3, Expire 4 4, Start 5, Expire 6 6,
              Start 7, Expire 8 8, Start 9, Expire 10 10] initialApp)) = 5
   \<and> fund (step (Delete ''10'')
        (run [Start 1, Expire 2 2, Start 3, Expire 4 4, Start 5, Expire 6 6,
              Start 7, Expire 8 8, Start 9, Expire 10 10] initialApp)) = 40"
  using spins_after_completions[of
      "[Start 1, Expire 2 2, Start 3, Expire 4 4, Start 5, Expire 6 6,
        Start 7, Expire 8 8, Start 9, Expire 10 10]"
      "''10''"
      "run [Start 1, Expire 2 2, Start 3, Expire 4 4, Start 5, Expire 6 6,
            Start 7, Expire 8 8, Start 9, Expire 10 10] initialApp"]
  by (simp add: draw_free_def completions_def initialApp_def startTimer_def
      finishTimer_def deleteRecord_def toString_def const_defs Let_def)

section \<open>Consuming a spin\<close>

text \<open>
  Claim C8: \<open>playLottery\<close> with no spin available (zero or negative) returns the state
  as it is, so fund, records, \<open>successCount\<close> and \<open>spinsAvailable\<close> are unchanged; with
  a spin available it lowers \<open>spinsAvailable\<close> by exactly 1; hence a count that is not
  negative stays so.
\<close>

theorem playLottery_spins:
  "(spinsAvailable s \<le> 0 \<longrightarrow> playLottery rand idNow tsNow s = s)
   \<and> (0 < spinsAvailable s \<longrightarrow>
        spinsAvailable (playLottery rand idNow tsNow s) = spinsAvailable s - 1)
   \<and> (0 \<le> spinsAvailable s \<longrightarrow> 0 \<le> spinsAvailable (playLottery rand idNow tsNow s))"
  by (simp add: playLottery_def addStandardRecord_def Let_def)

theorem playLottery_spins_witness:
  "playLottery (1 / 2) 5000 5000 initialApp = initialApp
   \<and> spinsAvailable (playLottery (1 / 2) 5000 5000 (initialApp\<lparr>spinsAvailable := 1\<rparr>)) = 0"
  using playLottery_spins[of initialApp "1 / 2" 5000 5000]
    playLottery_spins[of "initialApp\<lparr>spinsAvailable := 1\<rparr>" "1 / 2" 5000 5000]
  by (simp add: initialApp_def)

section \<open>Deleting a record whose id is shared\<close>

text \<open>
  Claim C9: the id of every record the program creates is the decimal numeral of the
  clock reading, so two records created at one reading share their id. When two
  positions \<open>j < k\<close> of the history carry the same id \<open>i\<close> (a numeral, so not the
  empty string, which \<open>deleteRecord\<close> reads as no selection), deleting \<open>i\<close> keeps
  exactly the records with another id, so both records are gone and the history is
  shorter by two or more, while the fund goes down by the amount of the first match
  only; the sum of the amounts present goes down by the amounts of all matches.
\<close>

theorem deleteRecord_shared_id:
  "id_rec (hd (records (addStandardRecord ty amt desc t tsNow s))) = toString t
   \<and> id_rec (hd (records (finishTimer t tsNow s))) = toString t
   \<and> id_rec (hd (records (stopTimer t tsNow s))) = toString t
   \<and> toString t \<noteq> []
   \<and> (j < k \<and> k < length (records s) \<and> id_rec (records s ! j) = i
        \<and> id_rec (records s ! k) = i \<and> i \<noteq> [] \<longrightarrow>
        records (step (Delete i) s) = filter (\<lambda>r. id_rec r \<noteq> i) (records s)
        \<and> records s ! j \<notin> set (records (step (Delete i) s))
        \<and> records s ! k \<notin> set (records (step (Delete i) s))
        \<and> length (records (step (Delete i) s)) + 2 \<le> length (records s)
        \<and> fund (step (Delete i) s)
            = fund s - amount (hd (filter (\<lambda>r. id_rec r = i) (records s)))
        \<and> sum_list (map amount (records (step (Delete i) s)))
            = sum_list (map amount (records s))
              - sum_list (map amount (filter (\<lambda>r. id_rec r = i) (records s))))"
proof -
  have ids: "id_rec (hd (records (addStandardRecord ty amt desc t tsNow s))) = toString t
   \<and> id_rec (hd (records (finishTimer t tsNow s))) = toString t
   \<and> id_rec (hd (records (stopTimer t tsNow s))) = toString t
   \<and> toString t \<noteq> []"
    by (simp add: addStandardRecord_def finishTimer_def stopTimer_def Let_def
        toString_not_empty)
  have del: "records (step (Delete i) s) = filter (\<lambda>r. id_rec r \<noteq> i) (records s)
        \<and> records s ! j \<notin> set (records (step (Delete i) s))
        \<and> records s ! k \<notin> set (records (step (Delete i) s))
        \<and> length (records (step (Delete i) s)) + 2 \<le> length (records s)
        \<and> fund (step (Delete i) s)
            = fund s - amount (hd (filter (\<lambda>r. id_rec r = i) (records s)))
        \<and> sum_list (map amount (records (step (Delete i) s)))
            = sum_list (map amount (records s))
              - sum_list (map amount (filter (\<lambda>r. id_rec r = i) (records s)))"
    if h: "j < k" "k < length (records s)" "id_rec (records s ! j) = i"
      "id_rec (records s ! k) = i" "i \<noteq> []"
  proof -
    let ?P = "\<lambda>r. id_rec r = i"
    have two: "2 \<le> length (filter ?P (records s))"
      using two_matches[of j k "records s" ?P] h by simp
    then have ne: "filter ?P (records s) \<noteq> []"
      by auto
    have f: "find ?P (records s) = Some (hd (filter ?P (records s)))"
      using find_first_match[OF ne] .
    have r: "records (step (Delete i) s) = filter (\<lambda>r. id_rec r \<noteq> i) (records s)"
      using f h(5) by (simp add: deleteRecord_def)
    have fu: "fund (step (Delete i) s) = fund s - amount (hd (filter ?P (records s)))"
      using f h(5) by (simp add: deleteRecord_def)
    have len: "length (records (step (Delete i) s)) + 2 \<le> length (records s)"
      using length_filter_split[of ?P "records s"] two r by simp
    have su: "sum_list (map amount (records (step (Delete i) s)))
            = sum_list (map amount (records s))
              - sum_list (map amount (filter ?P (records s)))"
      using sum_filter_split[of amount ?P "records s"] r by simp
    from r h(3,4) have "records s ! j \<notin> set (records (step (Delete i) s))"
      and "records s ! k \<notin> set (records (step (Delete i) s))"
      by simp_all
    with r fu len su show ?thesis
      by simp
  qed
  from ids del show ?thesis
    by blast
qed

text \<open>
  Two sessions that expire at the same clock reading 2: both success records have the
  id "2", the fund is 20; the delete empties the history and leaves a fund of 10.
\<close>

theorem deleteRecord_shared_id_witness:
  "map id_rec (records (run [Start 1, Expire 2 3, Start 4, Expire 2 5] initialApp))
     = [''2'', ''2'']
   \<and> fund (run [Start 1, Expire 2 3, Start 4, Expire 2 5] initialApp) = 20
   \<and> records (step (Delete ''2'')
        (run [Start 1, Expire 2 3, Start 4, Expire 2 5] initialApp)) = []
   \<and> fund (step (Delete ''2'')
        (run [Start 1, Expire 2 3, Start 4, Expire 2 5] initialApp)) = 10"
  using deleteRecord_shared_id[where j = 0 and k = 1 and i = "''2''"
      and s = "run [Start 1, Expire 2 3, Start 4, Expire 2 5] initialApp"]
  by (simp add: initialApp_def startTimer_def finishTimer_def deleteRecord_def
      toString_def const_defs Let_def)

section \<open>Start without a guard\<close>

text \<open>
  Claim C10: \<open>startTimer\<close> does not test for an idle machine. In a state whose session
  is running it adds the pledge of 10 once more and replaces \<open>sessionStartTime\<close> by the
  current time; the earlier session gets no record and no outcome (the history and both
  counters are as before).
\<close>

theorem startTimer_while_running:
  "isTimerRunning s \<Longrightarrow>
   fund (startTimer now s) = fund s + 10
   \<and> sessionStartTime (startTimer now s) = Some now
   \<and> isTimerRunning (startTimer now s)
   \<and> records (startTimer now s) = records s
   \<and> successCount (startTimer now s) = successCount s
   \<and> spinsAvailable (startTimer now s) = spinsAvailable s"
  by (simp add: startTimer_def const_defs)

theorem startTimer_while_running_witness:
  "isTimerRunning (startTimer 1000 initialApp)
   \<and> fund (startTimer 2000 (startTimer 1000 initialApp)) = 20
   \<and> sessionStartTime (startTimer 2000 (startTimer 1000 initialApp)) = Some 2000
   \<and> records (startTimer 2000 (startTimer 1000 initialApp)) = []"
  using startTimer_while_running[of "startTimer 1000 initialApp" 2000]
  by (simp add: startTimer_def initialApp_def const_defs)

end
